theory Spec2Isabelle
  imports Main
begin

section \<open>The error layer of linodego (errors.go)\<close>

text \<open>
  The theory follows \<^verbatim>\<open>errors.go\<close>: the structs are records, Go's interface values
  (\<^verbatim>\<open>any\<close>, \<^verbatim>\<open>error\<close>) are datatypes with one constructor per case that the
  type switch of \<^verbatim>\<open>NewError\<close> tells apart, a pointer or an interface that may be
  \<^verbatim>\<open>nil\<close> is an \<open>option\<close>, and what the program does to the response it is handed (its body
  is a stream that is read once, and may be replaced) is explicit: \<open>coupleAPIErrors\<close>
  returns the response object as it is after the call beside the two values the Go
  function returns, and \<open>NewError\<close> returns its argument as it is after the call beside
  the error.
  Go's \<^verbatim>\<open>int\<close> is \<open>int\<close>: the program only compares status codes.
  A pointer stored in an interface value is taken to be non-nil. The method \<^verbatim>\<open>Is\<close> of
  \<open>Error\<close> is called by none of the functions below and is left out.
\<close>

subsection \<open>Constants\<close>

definition ErrorUnsupported :: int where "ErrorUnsupported = 0"
definition ErrorFromString :: int where "ErrorFromString = 1"
definition ErrorFromError :: int where "ErrorFromError = 2"
definition ErrorFromStringer :: int where "ErrorFromStringer = 3"

text \<open>The two status codes of \<^verbatim>\<open>net/http\<close> that the program names.\<close>

definition StatusNotFound :: int where "StatusNotFound = 404"
definition StatusBadGateway :: int where "StatusBadGateway = 502"

text \<open>\<^verbatim>\<open>http.StatusText\<close>: the reason phrase of a status code, empty when unknown.\<close>

definition StatusText :: "int \<Rightarrow> string" where
  "StatusText code =
    (if code = 100 then ''Continue''
     else if code = 101 then ''Switching Protocols''
     else if code = 102 then ''Processing''
     else if code = 103 then ''Early Hints''
     else if code = 200 then ''OK''
     else if code = 201 then ''Created''
     else if code = 202 then ''Accepted''
     else if code = 203 then ''Non-Authoritative Information''
     else if code = 204 then ''No Content''
     else if code = 205 then ''Reset Content''
     else if code = 206 then ''Partial Content''
     else if code = 207 then ''Multi-Status''
     else if code = 208 then ''Already Reported''
     else if code = 226 then ''IM Used''
     else if code = 300 then ''Multiple Choices''
     else if code = 301 then ''Moved Permanently''
     else if code = 302 then ''Found''
     else if code = 303 then ''See Other''
     else if code = 304 then ''Not Modified''
     else if code = 305 then ''Use Proxy''
     else if code = 307 then ''Temporary Redirect''
     else if code = 308 then ''Permanent Redirect''
     else if code = 400 then ''Bad Request''
     else if code = 401 then ''Unauthorized''
     else if code = 402 then ''Payment Required''
     else if code = 403 then ''Forbidden''
     else if code = 404 then ''Not Found''
     else if code = 405 then ''Method Not Allowed''
     else if code = 406 then ''Not Acceptable''
     else if code = 407 then ''Proxy Authentication Required''
     else if code = 408 then ''Request Timeout''
     else if code = 409 then ''Conflict''
     else if code = 410 then ''Gone''
     else if code = 411 then ''Length Required''
     else if code = 412 then ''Precondition Failed''
     else if code = 413 then ''Request Entity Too Large''
     else if code = 414 then ''Request URI Too Long''
     else if code = 415 then ''Unsupported Media Type''
     else if code = 416 then ''Requested Range Not Satisfiable''
     else if code = 417 then ''Expectation Failed''
     else if code = 418 then ''I'' @ [CHR 0x27] @ ''m a teapot''
     else if code = 421 then ''Misdirected Request''
     else if code = 422 then ''Unprocessable Entity''
     else if code = 423 then ''Locked''
     else if code = 424 then ''Failed Dependency''
     else if code = 425 then ''Too Early''
     else if code = 426 then ''Upgrade Required''
     else if code = 428 then ''Precondition Required''
     else if code = 429 then ''Too Many Requests''
     else if code = 431 then ''Request Header Fields Too Large''
     else if code = 451 then ''Unavailable For Legal Reasons''
     else if code = 500 then ''Internal Server Error''
     else if code = 501 then ''Not Implemented''
     else if code = 502 then ''Bad Gateway''
     else if code = 503 then ''Service Unavailable''
     else if code = 504 then ''Gateway Timeout''
     else if code = 505 then ''HTTP Version Not Supported''
     else if code = 506 then ''Variant Also Negotiates''
     else if code = 507 then ''Insufficient Storage''
     else if code = 508 then ''Loop Detected''
     else if code = 510 then ''Not Extended''
     else if code = 511 then ''Network Authentication Required''
     else [])"

subsection \<open>Requests, responses and their bodies\<close>

text \<open>
  \<^verbatim>\<open>http.Header\<close> is a map from a key to the list of its values. \<open>Get\<close> gives the
  first value of a key, and the empty string when the key has none. (Go brings the key into
  its canonical form first; \<^verbatim>\<open>Accept\<close> and \<^verbatim>\<open>Content-Type\<close>, the two keys the
  program asks for, are in that form.) A nil header has no key, as the empty one.
\<close>

type_synonym header = "string \<rightharpoonup> string list"

definition Get :: "header \<Rightarrow> string \<Rightarrow> string" where
  "Get h key = (case h key of None \<Rightarrow> [] | Some [] \<Rightarrow> [] | Some (v # _) \<Rightarrow> v)"

text \<open>
  A body is a stream that can be read once: \<open>pending\<close> holds the bytes it still
  delivers, and \<open>failure\<close> says how it ends: at the end of the data (\<open>None\<close>) or
  with a read error, of which the model keeps the description.
\<close>

record reader =
  pending :: string
  failure :: "string option"

text \<open>
  \<^verbatim>\<open>io.ReadAll\<close> reads to the end: it returns the bytes read and the error, if any, and
  leaves the stream with nothing more to deliver.
\<close>

definition ReadAll :: "reader \<Rightarrow> (string \<times> string option) \<times> reader" where
  "ReadAll r = ((pending r, failure r), r\<lparr>pending := []\<rparr>)"

text \<open>\<^verbatim>\<open>io.NopCloser(bytes.NewBuffer(b))\<close>: a stream that delivers \<open>b\<close> and ends.\<close>

definition NewBuffer :: "string \<Rightarrow> reader" where
  "NewBuffer b = \<lparr>pending = b, failure = None\<rparr>"

text \<open>Of \<^verbatim>\<open>http.Request\<close> the program reads the header, which may be nil.\<close>

record request =
  ReqHeader :: "header option"

record response =
  StatusCode :: int
  Header :: header
  Request :: "request option"
  Body :: "reader option"

subsection \<open>The error types\<close>

record Error =
  Response :: "response option"
  Code :: int
  Message :: string

record APIErrorReason =
  Reason :: string
  Field :: string

record APIError =
  Errors :: "APIErrorReason list"

text \<open>
  A value of the interface \<^verbatim>\<open>error\<close>: a pointer to an \<open>Error\<close>, or a value of another
  type, given by what its \<^verbatim>\<open>Error()\<close> returns, what its \<^verbatim>\<open>String()\<close> returns when
  the type has that method too, and what it unwraps to (\<^verbatim>\<open>Unwrap() error\<close>,
  \<^verbatim>\<open>Unwrap() []error\<close>, or neither). Error types with an \<^verbatim>\<open>As\<close> method of their own
  are outside the model.
\<close>

datatype goerror =
    ErrorPtr Error
  | OtherError string "string option" unwrapping
and unwrapping =
    NoUnwrap
  | UnwrapOne "goerror option"
  | UnwrapMany "goerror option list"

text \<open>
  A non-nil value of \<^verbatim>\<open>any\<close>, by the cases of the type switch in \<open>NewError\<close>: an
  error, a pointer to a response, a string, a value whose type has \<^verbatim>\<open>String()\<close> and
  not \<^verbatim>\<open>Error()\<close> (its type's name and its rendering), or a value of any other type
  (its type's name).
\<close>

datatype goval =
    AnError goerror
  | AResponse response
  | AString string
  | AStringer string string
  | AnOther string

subsection \<open>Rendering\<close>

definition APIErrorReason_Error :: "APIErrorReason \<Rightarrow> string" where
  "APIErrorReason_Error r =
    (if length (Field r) = 0 then Reason r
     else ''['' @ Field r @ ''] '' @ Reason r)"

text \<open>\<^verbatim>\<open>strings.Join\<close>.\<close>

fun Join :: "string list \<Rightarrow> string \<Rightarrow> string" where
  "Join [] sep = []"
| "Join [x] sep = x"
| "Join (x # y # ys) sep = x @ sep @ Join (y # ys) sep"

text \<open>The loop of \<^verbatim>\<open>APIError.Error\<close> appends one rendering per reason to \<open>x\<close>.\<close>

fun APIError_Error_loop :: "string list \<Rightarrow> APIErrorReason list \<Rightarrow> string list" where
  "APIError_Error_loop x [] = x"
| "APIError_Error_loop x (msg # rest) =
     APIError_Error_loop (x @ [APIErrorReason_Error msg]) rest"

definition APIError_Error :: "APIError \<Rightarrow> string" where
  "APIError_Error e = Join (APIError_Error_loop [] (Errors e)) ''; ''"

definition Error_StatusCode :: "Error \<Rightarrow> int" where
  "Error_StatusCode err = Code err"

subsection \<open>NewError\<close>

text \<open>
  \<^verbatim>\<open>getAPIError\<close> is called by \<open>NewError\<close> and \<open>coupleAPIErrors\<close> and is not among
  the sources at hand. It is a parameter of both. It is handed the pointer to the
  response, so it is a function from the response as it finds it to the structured error
  the body decodes to (\<open>None\<close> when there is none) and the response as it leaves it:
  a decoder that reads the body may leave the stream drained or put the bytes back.
  Nothing is assumed of it.
\<close>

type_synonym decoder = "response \<Rightarrow> APIError option \<times> response"

text \<open>
  \<open>NewError\<close> returns the error and its argument as the call leaves it; only a response
  can change, through the decoder. The fields of the \<open>Error\<close> built from a response
  are set after \<^verbatim>\<open>getAPIError\<close> has returned, so they are read from the response as
  the decoder left it, and \<open>Response\<close> points to that response.
\<close>

fun NewError :: "decoder \<Rightarrow> goval option \<Rightarrow> Error option \<times> goval option" where
  "NewError getAPIError None = (None, None)"
| "NewError getAPIError (Some (AnError (ErrorPtr e))) = (Some e, Some (AnError (ErrorPtr e)))"
| "NewError getAPIError (Some (AResponse e)) =
    (case getAPIError e of
       (None, e') \<Rightarrow>
         (Some \<lparr>Response = None, Code = ErrorUnsupported,
                Message = ''Unexpected HTTP Error Response, no error''\<rparr>,
          Some (AResponse e'))
     | (Some apiError, e') \<Rightarrow>
         (Some \<lparr>Response = Some e', Code = StatusCode e',
                Message = APIError_Error apiError\<rparr>,
          Some (AResponse e')))"
| "NewError getAPIError (Some (AnError (OtherError description rendering u))) =
    (Some \<lparr>Response = None, Code = ErrorFromError, Message = description\<rparr>,
     Some (AnError (OtherError description rendering u)))"
| "NewError getAPIError (Some (AString e)) =
    (Some \<lparr>Response = None, Code = ErrorFromString, Message = e\<rparr>, Some (AString e))"
| "NewError getAPIError (Some (AStringer tname rendering)) =
    (Some \<lparr>Response = None, Code = ErrorFromStringer, Message = rendering\<rparr>,
     Some (AStringer tname rendering))"
| "NewError getAPIError (Some (AnOther tname)) =
    (Some \<lparr>Response = None, Code = ErrorUnsupported,
           Message = ''Unsupported type to linodego.NewError: '' @ tname\<rparr>,
     Some (AnOther tname))"

text \<open>The response that a value of \<^verbatim>\<open>any\<close> points to, if it points to one.\<close>

fun response_of :: "goval option \<Rightarrow> response option" where
  "response_of (Some (AResponse r)) = Some r"
| "response_of v = None"

subsection \<open>Error.Error\<close>

text \<open>
  \<^verbatim>\<open>fmt.Sprintf("[%03d] %s", err.Code, err.Message)\<close>: the code in decimal, padded with
  zeros to three places, the sign counting as one.
\<close>

fun decimal :: "nat \<Rightarrow> string" where
  "decimal n =
    (if n < 10 then [''0123456789'' ! n]
     else decimal (n div 10) @ [''0123456789'' ! (n mod 10)])"

declare decimal.simps [simp del]

definition zero_pad :: "nat \<Rightarrow> string \<Rightarrow> string" where
  "zero_pad w s = replicate (w - length s) (CHR ''0'') @ s"

definition Sprintf_03d :: "int \<Rightarrow> string" where
  "Sprintf_03d i =
    (if i < 0 then ''-'' @ zero_pad 2 (decimal (nat (- i)))
     else zero_pad 3 (decimal (nat i)))"

definition Error_Error :: "Error \<Rightarrow> string" where
  "Error_Error err = ''['' @ Sprintf_03d (Code err) @ ''] '' @ Message err"

text \<open>What the method \<^verbatim>\<open>Error()\<close> of an error value returns.\<close>

fun description :: "goerror \<Rightarrow> string" where
  "description (ErrorPtr e) = Error_Error e"
| "description (OtherError d rendering u) = d"

subsection \<open>coupleAPIErrors\<close>

text \<open>
  \<^verbatim>\<open>fmt.Errorf\<close>, in the two forms the program uses: a text with no verb, and a text
  that ends in \<^verbatim>\<open>%w\<close>. The second wraps its operand; when the operand is nil, Go
  renders the verb as \<^verbatim>\<open>%!w(<nil>)\<close> and wraps nothing.
\<close>

definition Errorf :: "string \<Rightarrow> goerror" where
  "Errorf text = OtherError text None NoUnwrap"

definition Errorf_w :: "string \<Rightarrow> goerror option \<Rightarrow> goerror" where
  "Errorf_w text err =
    (case err of
       None \<Rightarrow> OtherError (text @ ''%!w(<nil>)'') None NoUnwrap
     | Some e \<Rightarrow> OtherError (text @ description e) None (UnwrapOne (Some e)))"

text \<open>The error a stream fails with, of which only the description is known.\<close>

definition read_error :: "string \<Rightarrow> goerror" where
  "read_error d = OtherError d None NoUnwrap"

text \<open>
  \<^verbatim>\<open>fmt.Sprintf("Unexpected Content-Type: Expected: %v, Received: %v\nResponse body: %s", ...)\<close>
  on three strings.
\<close>

definition mismatch_message :: "string \<Rightarrow> string \<Rightarrow> string \<Rightarrow> string" where
  "mismatch_message expectedContentType responseContentType bodyText =
    ''Unexpected Content-Type: Expected: '' @ expectedContentType @
    '', Received: '' @ responseContentType @
    [CHR 0x0A] @ ''Response body: '' @ bodyText"

text \<open>
  The content type the request asked for: its \<^verbatim>\<open>Accept\<close> header, and the empty string
  when the response has no request or the request no header (lines 61 to 64).
\<close>

definition expectedContentType :: "response \<Rightarrow> string" where
  "expectedContentType resp =
    (case Request resp of
       None \<Rightarrow> []
     | Some rq \<Rightarrow> (case ReqHeader rq of None \<Rightarrow> [] | Some h \<Rightarrow> Get h ''Accept''))"

definition responseContentType :: "response \<Rightarrow> string" where
  "responseContentType resp = Get (Header resp) ''Content-Type''"

text \<open>
  The result is a triple: the response and the error that the Go function returns, and
  the response object as the call leaves it. The function assigns to \<^verbatim>\<open>resp.Body\<close>
  where the content types differ; where they agree, the response is handed to
  \<^verbatim>\<open>getAPIError\<close> (line 97) and, when there are reasons, handed to \<open>NewError\<close> as that
  call left it, which hands it to \<^verbatim>\<open>getAPIError\<close> once more (line 151). A response
  that is returned is the object in its last state. The error returned is nil or a
  pointer to an \<open>Error\<close>.
\<close>

type_synonym coupled = "response option \<times> Error option \<times> response option"

definition coupleAPIErrors :: "decoder \<Rightarrow> response option \<Rightarrow> goerror option \<Rightarrow> coupled" where
  "coupleAPIErrors getAPIError resp err =
    (case err of
       Some e \<Rightarrow> (None, fst (NewError getAPIError (Some (AnError e))), resp)
     | None \<Rightarrow>
    (case resp of
       None \<Rightarrow>
         (None, fst (NewError getAPIError (Some (AnError (Errorf ''response is nil'')))), None)
     | Some r \<Rightarrow>
         if StatusCode r < 200 \<or> StatusCode r \<ge> 300 then
           if StatusCode r = StatusBadGateway \<and> responseContentType r = ''text/html'' then
             (None,
              Some \<lparr>Response = Some r, Code = StatusBadGateway,
                    Message = StatusText StatusBadGateway\<rparr>,
              Some r)
           else if responseContentType r \<noteq> expectedContentType r then
             (case Body r of
                None \<Rightarrow>
                  (None,
                   fst (NewError getAPIError
                     (Some (AnError (Errorf ''response body is nil'')))),
                   Some r)
              | Some body \<Rightarrow>
                  (case ReadAll body of
                     ((bodyBytes, Some readErr), body') \<Rightarrow>
                       (None,
                        fst (NewError getAPIError
                          (Some (AnError (Errorf_w ''failed to read response body: ''
                             (Some (read_error readErr)))))),
                        Some (r\<lparr>Body := Some body'\<rparr>))
                   | ((bodyBytes, None), body') \<Rightarrow>
                       (None,
                        Some \<lparr>Response = None, Code = StatusCode r,
                              Message = mismatch_message (expectedContentType r)
                                (responseContentType r) bodyBytes\<rparr>,
                        Some (r\<lparr>Body := Some (NewBuffer bodyBytes)\<rparr>))))
           else
             (case getAPIError r of
                (None, r') \<Rightarrow>
                  (None,
                   fst (NewError getAPIError
                     (Some (AnError (Errorf_w ''failed to decode response body: '' err)))),
                   Some r')
              | (Some apiError, r') \<Rightarrow>
                  if length (Errors apiError) = 0 then (Some r', None, Some r')
                  else
                    (case NewError getAPIError (Some (AResponse r')) of
                       (e, after) \<Rightarrow> (None, e, response_of after)))
         else (Some r, None, Some r)))"

subsection \<open>ErrHasStatus and IsNotFound\<close>

text \<open>
  \<^verbatim>\<open>errors.As(err, &e)\<close> for a target of type \<^verbatim>\<open>*Error\<close>: the first pointer to an
  \<open>Error\<close> met on the way through what the error unwraps to, depth first; a nil on the
  way of a single \<^verbatim>\<open>Unwrap\<close> ends the search, a nil in a list is skipped.
\<close>

fun errors_As :: "goerror \<Rightarrow> Error option"
  and As_unwrapped :: "unwrapping \<Rightarrow> Error option"
  and As_each :: "goerror option list \<Rightarrow> Error option" where
  "errors_As (ErrorPtr e) = Some e"
| "errors_As (OtherError d rendering u) = As_unwrapped u"
| "As_unwrapped NoUnwrap = None"
| "As_unwrapped (UnwrapOne None) = None"
| "As_unwrapped (UnwrapOne (Some err)) = errors_As err"
| "As_unwrapped (UnwrapMany errs) = As_each errs"
| "As_each [] = None"
| "As_each (None # errs) = As_each errs"
| "As_each (Some err # errs) =
    (case errors_As err of Some e \<Rightarrow> Some e | None \<Rightarrow> As_each errs)"

text \<open>The loop over the codes (lines 196 to 201).\<close>

fun code_loop :: "int \<Rightarrow> int list \<Rightarrow> bool" where
  "code_loop ec [] = False"
| "code_loop ec (c # rest) = (if ec = c then True else code_loop ec rest)"

definition ErrHasStatus :: "goerror option \<Rightarrow> int list \<Rightarrow> bool" where
  "ErrHasStatus err code =
    (case err of
       None \<Rightarrow> False
     | Some x \<Rightarrow>
         if length code = 0 then False
         else (case errors_As x of
                 None \<Rightarrow> False
               | Some e \<Rightarrow> code_loop (Error_StatusCode e) code))"

definition IsNotFound :: "goerror option \<Rightarrow> bool" where
  "IsNotFound err = ErrHasStatus err [StatusNotFound]"


subsection \<open>Sample exchanges\<close>

text \<open>
  The requests, bodies and responses of the scenarios, for the examples below, and two
  decoders. Both read the body to its end and know the two structured bodies of the
  scenarios; they decode no other body. The first puts the bytes it read back as a new
  stream; the second leaves the stream drained.
\<close>

definition json_request :: request where
  "json_request = \<lparr>ReqHeader = Some [''Accept'' \<mapsto> [''application/json'']]\<rparr>"

definition html_request :: request where
  "html_request = \<lparr>ReqHeader = Some [''Accept'' \<mapsto> [''text/html'']]\<rparr>"

definition entity_ids_body :: string where
  \<open>entity_ids_body =
    ''{"errors":[{"reason":"Entity ID is required","field":"entity_ids"}]}''\<close>

definition no_errors_body :: string where
  \<open>no_errors_body = ''{"errors":[]}''\<close>

definition overloaded_body :: string where
  \<open>overloaded_body = ''"server overloaded"''\<close>

definition entity_ids_error :: APIError where
  "entity_ids_error =
    \<lparr>Errors = [\<lparr>Reason = ''Entity ID is required'', Field = ''entity_ids''\<rparr>]\<rparr>"

definition decode_sample :: "string \<Rightarrow> APIError option" where
  "decode_sample bodyBytes =
    (if bodyBytes = entity_ids_body then Some entity_ids_error
     else if bodyBytes = no_errors_body then Some \<lparr>Errors = []\<rparr>
     else None)"

definition scenario_decoder :: decoder where
  "scenario_decoder resp =
    (case Body resp of
       None \<Rightarrow> (None, resp)
     | Some b \<Rightarrow>
         (case ReadAll b of
            ((bodyBytes, Some readErr), b') \<Rightarrow> (None, resp\<lparr>Body := Some b'\<rparr>)
          | ((bodyBytes, None), b') \<Rightarrow>
              (decode_sample bodyBytes, resp\<lparr>Body := Some (NewBuffer bodyBytes)\<rparr>)))"

definition draining_decoder :: decoder where
  "draining_decoder resp =
    (case Body resp of
       None \<Rightarrow> (None, resp)
     | Some b \<Rightarrow>
         (case ReadAll b of
            ((bodyBytes, Some readErr), b') \<Rightarrow> (None, resp\<lparr>Body := Some b'\<rparr>)
          | ((bodyBytes, None), b') \<Rightarrow>
              (decode_sample bodyBytes, resp\<lparr>Body := Some b'\<rparr>)))"

definition json_response :: "int \<Rightarrow> string \<Rightarrow> response" where
  "json_response status body =
    \<lparr>StatusCode = status, Header = [''Content-Type'' \<mapsto> [''application/json'']],
     Request = Some json_request, Body = Some (NewBuffer body)\<rparr>"

definition plain_response :: "int \<Rightarrow> string \<Rightarrow> response" where
  "plain_response status body =
    \<lparr>StatusCode = status, Header = [''Content-Type'' \<mapsto> [''text/plain'']],
     Request = Some json_request, Body = Some (NewBuffer body)\<rparr>"

text \<open>A gateway's page, sent to a request that asked for \<^verbatim>\<open>text/html\<close>.\<close>

definition gateway_page :: "string \<Rightarrow> response" where
  "gateway_page body =
    \<lparr>StatusCode = 502, Header = [''Content-Type'' \<mapsto> [''text/html'']],
     Request = Some html_request, Body = Some (NewBuffer body)\<rparr>"

text \<open>A response whose body fails after the bytes \<open>delivered\<close>.\<close>

definition broken_response :: "int \<Rightarrow> string \<Rightarrow> string \<Rightarrow> response" where
  "broken_response status delivered readErr =
    \<lparr>StatusCode = status, Header = [''Content-Type'' \<mapsto> [''text/plain'']],
     Request = Some json_request,
     Body = Some \<lparr>pending = delivered, failure = Some readErr\<rparr>\<rparr>"

section \<open>Properties\<close>

subsection \<open>Auxiliary facts\<close>

lemma APIError_Error_loop_map:
  "APIError_Error_loop x es = x @ map APIErrorReason_Error es"
  by (induction es arbitrary: x) simp_all

lemma APIError_Error_joined:
  "APIError_Error a = Join (map APIErrorReason_Error (Errors a)) ''; ''"
  by (simp add: APIError_Error_def APIError_Error_loop_map)

lemma NewError_not_None: "(fst (NewError g (Some x)) = None) = False"
  by (cases "(g, Some x)" rule: NewError.cases) (auto split: option.splits prod.splits)

lemma NewError_Some: "\<exists>y. fst (NewError g (Some x)) = Some y"
  using NewError_not_None [of g x] by auto

lemma code_loop_set: "code_loop ec cs \<longleftrightarrow> ec \<in> set cs"
  by (induction cs) auto

lemma expected_json [simp]:
  "expectedContentType (json_response status body) = ''application/json''"
  "expectedContentType (plain_response status body) = ''application/json''"
  "expectedContentType (gateway_page body) = ''text/html''"
  by (simp_all add: expectedContentType_def json_response_def plain_response_def
      gateway_page_def json_request_def html_request_def Get_def)

lemma received_sample [simp]:
  "Get (Header (json_response status body)) ''Content-Type'' = ''application/json''"
  "Get (Header (plain_response status body)) ''Content-Type'' = ''text/plain''"
  "Get (Header (gateway_page body)) ''Content-Type'' = ''text/html''"
  by (simp_all add: json_response_def plain_response_def gateway_page_def Get_def)

lemma sample_fields [simp]:
  "StatusCode (json_response status body) = status"
  "StatusCode (plain_response status body) = status"
  "StatusCode (gateway_page body) = 502"
  "Body (json_response status body) = Some (NewBuffer body)"
  "Body (plain_response status body) = Some (NewBuffer body)"
  "Body (gateway_page body) = Some (NewBuffer body)"
  by (simp_all add: json_response_def plain_response_def gateway_page_def)

lemma decode_sample_bodies [simp]:
  "decode_sample entity_ids_body = Some entity_ids_error"
  "decode_sample no_errors_body = Some \<lparr>Errors = []\<rparr>"
  "decode_sample [] = None"
  "decode_sample ''oops'' = None"
  by (simp_all add: decode_sample_def entity_ids_body_def no_errors_body_def)

lemma scenario_decoder_samples [simp]:
  "scenario_decoder (json_response status body) =
     (decode_sample body, json_response status body)"
  "scenario_decoder (gateway_page body) = (decode_sample body, gateway_page body)"
  by (simp_all add: scenario_decoder_def ReadAll_def NewBuffer_def json_response_def
      gateway_page_def)

lemma draining_decoder_samples [simp]:
  "draining_decoder (json_response status body) =
     (decode_sample body, json_response status [])"
  by (simp add: draining_decoder_def ReadAll_def NewBuffer_def json_response_def)

lemma mismatch_result:
  assumes "StatusCode r < 200 \<or> 300 \<le> StatusCode r"
    and "\<not> (StatusCode r = 502 \<and> Get (Header r) ''Content-Type'' = ''text/html'')"
    and "Get (Header r) ''Content-Type'' \<noteq> expectedContentType r"
  shows "coupleAPIErrors g (Some r) None =
    (case Body r of
       None \<Rightarrow>
         (None, Some \<lparr>Response = None, Code = 2, Message = ''response body is nil''\<rparr>, Some r)
     | Some b \<Rightarrow>
         (case failure b of
            Some d \<Rightarrow>
              (None,
               Some \<lparr>Response = None, Code = 2,
                     Message = ''failed to read response body: '' @ d\<rparr>,
               Some (r\<lparr>Body := Some (b\<lparr>pending := []\<rparr>)\<rparr>))
          | None \<Rightarrow>
              (None,
               Some \<lparr>Response = None, Code = StatusCode r,
                     Message = mismatch_message (expectedContentType r)
                       (responseContentType r) (pending b)\<rparr>,
               Some (r\<lparr>Body := Some (NewBuffer (pending b))\<rparr>))))"
proof -
  have gate: "\<not> (StatusCode r = StatusBadGateway \<and> responseContentType r = ''text/html'')"
    using assms(2) by (simp add: StatusBadGateway_def responseContentType_def)
  have differ: "responseContentType r \<noteq> expectedContentType r"
    using assms(3) by (simp add: responseContentType_def)
  show ?thesis
    using assms(1) gate differ
    by (simp add: coupleAPIErrors_def ReadAll_def Errorf_def Errorf_w_def read_error_def
        ErrorFromError_def split: option.splits)
qed

subsection \<open>Success\<close>

text \<open>
  C7. For a response with a status code in [200,300) and no transport error,
  \<open>coupleAPIErrors\<close> returns that response and no error, and leaves the response as it
  was, whatever its body, its headers, its request and the decoder are.
\<close>

theorem success_passes_through:
  assumes "200 \<le> StatusCode r" and "StatusCode r < 300"
  shows "coupleAPIErrors g (Some r) None = (Some r, None, Some r)"
  using assms by (simp add: coupleAPIErrors_def)

theorem success_passes_through_witness:
  "coupleAPIErrors scenario_decoder (Some (plain_response 204 overloaded_body)) None =
    (Some (plain_response 204 overloaded_body), None, Some (plain_response 204 overloaded_body))"
  using success_passes_through [of "plain_response 204 overloaded_body" scenario_decoder]
  by simp


subsection \<open>The gateway's page\<close>

text \<open>
  C6. For a response with status code 502 whose \<^verbatim>\<open>Content-Type\<close> header is exactly
  \<^verbatim>\<open>text/html\<close>, and no transport error, \<open>coupleAPIErrors\<close> returns no response and
  the error with code 502 and message \<^verbatim>\<open>Bad Gateway\<close>. The body is not read (the
  response is left as it was) and not decoded (the result is the same for every decoder).
\<close>

theorem bad_gateway_page:
  assumes "StatusCode r = 502" and "Get (Header r) ''Content-Type'' = ''text/html''"
  shows "coupleAPIErrors g (Some r) None =
    (None, Some \<lparr>Response = Some r, Code = 502, Message = ''Bad Gateway''\<rparr>, Some r)"
  using assms
  by (simp add: coupleAPIErrors_def responseContentType_def StatusBadGateway_def
      StatusText_def)

theorem bad_gateway_page_witness:
  "coupleAPIErrors scenario_decoder (Some (gateway_page ''<html>502</html>'')) None =
    (None,
     Some \<lparr>Response = Some (gateway_page ''<html>502</html>''), Code = 502,
           Message = ''Bad Gateway''\<rparr>,
     Some (gateway_page ''<html>502</html>''))"
  using bad_gateway_page [of "gateway_page ''<html>502</html>''" scenario_decoder]
  by simp

subsection \<open>Structured errors\<close>




subsection \<open>A structured body with no reason\<close>

text \<open>
  C2, as the claim states it, fails at two inputs. The first is a response with status
  502 and content type \<^verbatim>\<open>text/html\<close>, as its request accepts, and a body that decodes
  to an empty list of reasons: an error is returned, and no response. The second is a
  response with status 400 and such a body, with a decoder that leaves the body drained:
  the first classification returns the response and no error, the second classification
  of the same response returns an error and no response.
\<close>

theorem no_reasons_counterexample:
  "\<not> (200 \<le> StatusCode (gateway_page no_errors_body) \<and>
       StatusCode (gateway_page no_errors_body) < 300) \<and>
   Get (Header (gateway_page no_errors_body)) ''Content-Type'' =
     expectedContentType (gateway_page no_errors_body) \<and>
   fst (scenario_decoder (gateway_page no_errors_body)) = Some \<lparr>Errors = []\<rparr> \<and>
   coupleAPIErrors scenario_decoder (Some (gateway_page no_errors_body)) None =
     (None,
      Some \<lparr>Response = Some (gateway_page no_errors_body), Code = 502,
            Message = ''Bad Gateway''\<rparr>,
      Some (gateway_page no_errors_body)) \<and>
   fst (draining_decoder (json_response 400 no_errors_body)) = Some \<lparr>Errors = []\<rparr> \<and>
   coupleAPIErrors draining_decoder (Some (json_response 400 no_errors_body)) None =
     (Some (json_response 400 []), None, Some (json_response 400 [])) \<and>
   coupleAPIErrors draining_decoder (Some (json_response 400 [])) None =
     (None,
      Some \<lparr>Response = None, Code = 2,
            Message = ''failed to decode response body: %!w(<nil>)''\<rparr>,
      Some (json_response 400 []))"
  by (simp add: coupleAPIErrors_def responseContentType_def StatusBadGateway_def
      StatusText_def Errorf_w_def ErrorFromError_def)

text \<open>
  C2, amended. For a response whose status code is outside [200,300), that is not a 502
  with content type \<^verbatim>\<open>text/html\<close>, whose \<^verbatim>\<open>Content-Type\<close> header equals the
  content type its request accepts, and whose body decodes to a structured error with no
  reason, \<open>coupleAPIErrors\<close> (no transport error) returns the response and no error.
  Classifying the same response once more returns the response and no error again,
  provided that the first decoding changed nothing of the response but its body and that
  the body, as it was left, decodes once more to a structured error with no reason.
  Nothing is said of a second decoding that fails.
\<close>

theorem no_reasons_no_error:
  assumes "StatusCode r < 200 \<or> 300 \<le> StatusCode r"
    and "\<not> (StatusCode r = 502 \<and> Get (Header r) ''Content-Type'' = ''text/html'')"
    and "Get (Header r) ''Content-Type'' = expectedContentType r"
    and "g r = (Some a, r1)"
    and "Errors a = []"
  shows "coupleAPIErrors g (Some r) None = (Some r1, None, Some r1) \<and>
    (r1 = r\<lparr>Body := Body r1\<rparr> \<and> g r1 = (Some a2, r2) \<and> Errors a2 = [] \<longrightarrow>
      coupleAPIErrors g (snd (snd (coupleAPIErrors g (Some r) None))) None =
        (Some r2, None, Some r2))"
proof -
  have zero: "coupleAPIErrors g (Some x) None = (Some y, None, Some y)"
    if "StatusCode x < 200 \<or> 300 \<le> StatusCode x"
      and "\<not> (StatusCode x = 502 \<and> Get (Header x) ''Content-Type'' = ''text/html'')"
      and "Get (Header x) ''Content-Type'' = expectedContentType x"
      and "g x = (Some b, y)" and "Errors b = []" for x y b
    using that
    by (auto simp add: coupleAPIErrors_def responseContentType_def StatusBadGateway_def)
  have first: "coupleAPIErrors g (Some r) None = (Some r1, None, Some r1)"
    using assms by (rule zero)
  have second: "coupleAPIErrors g (Some r1) None = (Some r2, None, Some r2)"
    if same: "r1 = r\<lparr>Body := Body r1\<rparr>" and again: "g r1 = (Some a2, r2)" "Errors a2 = []"
  proof -
    have "StatusCode r1 = StatusCode r" "Header r1 = Header r" "Request r1 = Request r"
      by (subst same, simp)+
    then have "StatusCode r1 < 200 \<or> 300 \<le> StatusCode r1"
      and "\<not> (StatusCode r1 = 502 \<and> Get (Header r1) ''Content-Type'' = ''text/html'')"
      and "Get (Header r1) ''Content-Type'' = expectedContentType r1"
      using assms(1,2,3) by (simp_all add: expectedContentType_def)
    then show ?thesis using again by (rule zero)
  qed
  show ?thesis using first second by simp
qed

theorem no_reasons_no_error_witness:
  "coupleAPIErrors scenario_decoder (Some (json_response 400 no_errors_body)) None =
    (Some (json_response 400 no_errors_body), None, Some (json_response 400 no_errors_body)) \<and>
   coupleAPIErrors scenario_decoder
      (snd (snd (coupleAPIErrors scenario_decoder
        (Some (json_response 400 no_errors_body)) None))) None =
    (Some (json_response 400 no_errors_body), None, Some (json_response 400 no_errors_body))"
  using no_reasons_no_error
    [of "json_response 400 no_errors_body" scenario_decoder "\<lparr>Errors = []\<rparr>"
      "json_response 400 no_errors_body" "\<lparr>Errors = []\<rparr>"
      "json_response 400 no_errors_body"]
  by simp

subsection \<open>Content types that differ\<close>

text \<open>
  C4. Take a response whose status code is outside [200,300), that is not a 502 with
  content type \<^verbatim>\<open>text/html\<close>, and whose \<^verbatim>\<open>Content-Type\<close> header differs from the
  content type its request accepts (the empty string when the request or its header is
  absent), and no transport error. When the body can be read to its end,
  \<open>coupleAPIErrors\<close> returns an error whose code is the status code and whose message
  holds the expected content type, the received one and the text of the body. When the
  body is nil or reading it fails, it returns an error with the code \<open>ErrorFromError\<close>
  that says so. The error with the two content types is returned exactly when the body
  is there and readable.
\<close>

theorem content_type_mismatch:
  assumes "StatusCode r < 200 \<or> 300 \<le> StatusCode r"
    and "\<not> (StatusCode r = 502 \<and> Get (Header r) ''Content-Type'' = ''text/html'')"
    and "Get (Header r) ''Content-Type'' \<noteq> expectedContentType r"
  shows "fst (coupleAPIErrors g (Some r) None) = None \<and>
    fst (snd (coupleAPIErrors g (Some r) None)) =
      (case Body r of
         None \<Rightarrow> Some \<lparr>Response = None, Code = 2, Message = ''response body is nil''\<rparr>
       | Some b \<Rightarrow>
           (case failure b of
              Some d \<Rightarrow>
                Some \<lparr>Response = None, Code = 2,
                      Message = ''failed to read response body: '' @ d\<rparr>
            | None \<Rightarrow>
                Some \<lparr>Response = None, Code = StatusCode r,
                      Message =
                        ''Unexpected Content-Type: Expected: '' @ expectedContentType r @
                        '', Received: '' @ Get (Header r) ''Content-Type'' @
                        [CHR 0x0A] @ ''Response body: '' @ pending b\<rparr>)) \<and>
    ((\<exists>e bodyText. fst (snd (coupleAPIErrors g (Some r) None)) = Some e \<and>
        Message e =
          ''Unexpected Content-Type: Expected: '' @ expectedContentType r @
          '', Received: '' @ Get (Header r) ''Content-Type'' @
          [CHR 0x0A] @ ''Response body: '' @ bodyText) =
     (\<exists>b. Body r = Some b \<and> failure b = None))"
proof -
  note result = mismatch_result [OF assms, of g]
  show ?thesis
    unfolding result
    by (auto simp add: mismatch_message_def responseContentType_def split: option.splits)
qed

theorem content_type_mismatch_witness:
  "fst (snd (coupleAPIErrors scenario_decoder (Some (plain_response 503 overloaded_body)) None)) =
     Some \<lparr>Response = None, Code = 503,
           Message =
             ''Unexpected Content-Type: Expected: application/json, Received: text/plain'' @
             [CHR 0x0A] @ ''Response body: '' @ overloaded_body\<rparr>"
  using content_type_mismatch [of "plain_response 503 overloaded_body" scenario_decoder]
  by (simp add: NewBuffer_def)

subsection \<open>The body after the diagnosis\<close>

text \<open>
  C5, as the claim states it, fails where reading the body fails: the content types
  differ, \<open>coupleAPIErrors\<close> reads the body to report them, the stream delivers some
  bytes and then an error, and the function returns (lines 80 to 82) before the body is
  replaced (line 84). The response is left with the drained stream, and reading it does
  not give the bytes that reading the original gave.
\<close>

theorem body_restored_counterexample:
  "\<not> (200 \<le> StatusCode (broken_response 503 ''server ov'' ''unexpected EOF'') \<and>
       StatusCode (broken_response 503 ''server ov'' ''unexpected EOF'') < 300) \<and>
   Get (Header (broken_response 503 ''server ov'' ''unexpected EOF'')) ''Content-Type'' \<noteq>
     expectedContentType (broken_response 503 ''server ov'' ''unexpected EOF'') \<and>
   coupleAPIErrors scenario_decoder
       (Some (broken_response 503 ''server ov'' ''unexpected EOF'')) None =
     (None,
      Some \<lparr>Response = None, Code = 2,
            Message = ''failed to read response body: unexpected EOF''\<rparr>,
      Some (broken_response 503 [] ''unexpected EOF'')) \<and>
   fst (ReadAll \<lparr>pending = ''server ov'', failure = Some ''unexpected EOF''\<rparr>) =
     (''server ov'', Some ''unexpected EOF'') \<and>
   Body (broken_response 503 [] ''unexpected EOF'') =
     Some \<lparr>pending = [], failure = Some ''unexpected EOF''\<rparr> \<and>
   fst (ReadAll \<lparr>pending = [], failure = Some ''unexpected EOF''\<rparr>) =
     ([], Some ''unexpected EOF'')"
  by (simp add: coupleAPIErrors_def responseContentType_def expectedContentType_def
      StatusBadGateway_def broken_response_def json_request_def Get_def ReadAll_def
      Errorf_w_def read_error_def ErrorFromError_def)

text \<open>
  C5, amended. When \<open>coupleAPIErrors\<close> reads the body of a response to report content
  types that differ, and the body is read to its end with no read error, the response it
  leaves differs from the response it was given in the body alone, and that body is a
  new stream: reading it gives the bytes that reading the original body gave, with no
  error, and leaves nothing more to read.
\<close>

theorem body_restored:
  assumes "StatusCode r < 200 \<or> 300 \<le> StatusCode r"
    and "\<not> (StatusCode r = 502 \<and> Get (Header r) ''Content-Type'' = ''text/html'')"
    and "Get (Header r) ''Content-Type'' \<noteq> expectedContentType r"
    and "Body r = Some b"
    and "failure b = None"
  shows "\<exists>b'. snd (snd (coupleAPIErrors g (Some r) None)) = Some (r\<lparr>Body := Some b'\<rparr>) \<and>
    fst (ReadAll b') = fst (ReadAll b) \<and>
    fst (ReadAll b') = (pending b, None) \<and>
    pending (snd (ReadAll b')) = []"
proof -
  have "snd (snd (coupleAPIErrors g (Some r) None)) =
      Some (r\<lparr>Body := Some (NewBuffer (pending b))\<rparr>)"
    using assms(4,5) by (simp add: mismatch_result [OF assms(1,2,3)])
  moreover have "fst (ReadAll (NewBuffer (pending b))) = fst (ReadAll b)"
    using assms(5) by (simp add: ReadAll_def NewBuffer_def)
  moreover have "fst (ReadAll (NewBuffer (pending b))) = (pending b, None)"
    by (simp add: ReadAll_def NewBuffer_def)
  moreover have "pending (snd (ReadAll (NewBuffer (pending b)))) = []"
    by (simp add: ReadAll_def)
  ultimately show ?thesis by blast
qed

theorem body_restored_witness:
  "\<exists>b'. snd (snd (coupleAPIErrors scenario_decoder
        (Some (plain_response 503 overloaded_body)) None)) =
      Some ((plain_response 503 overloaded_body)\<lparr>Body := Some b'\<rparr>) \<and>
    fst (ReadAll b') = fst (ReadAll (NewBuffer overloaded_body)) \<and>
    fst (ReadAll b') = (overloaded_body, None) \<and>
    pending (snd (ReadAll b')) = []"
  using body_restored
    [of "plain_response 503 overloaded_body" "NewBuffer overloaded_body" scenario_decoder]
  by (simp add: NewBuffer_def)


subsection \<open>NewError\<close>

text \<open>
  C3. \<open>NewError\<close> decides by the type of its argument, in the order nil, pointer to an
  \<open>Error\<close>, pointer to a response, error, string, stringer, any other type: nil gives
  nil; a pointer to an \<open>Error\<close> gives that pointer; a response gives the code
  \<open>ErrorUnsupported\<close> when its body does not decode, and its status code with the
  rendered reasons when it does; an error of another type gives the code 2 and the
  error's description, whether or not the type has a \<^verbatim>\<open>String\<close> method as well and
  whatever that method returns; a string gives the code 1 and the string; a stringer
  that is no error gives the code 3 and its rendering; a value of any other type gives
  the code 0 and a message that ends in the name of the type.
\<close>

theorem NewError_dispatch:
  "NewError g None = (None, None) \<and>
   NewError g (Some (AnError (ErrorPtr e))) = (Some e, Some (AnError (ErrorPtr e))) \<and>
   fst (NewError g (Some (AResponse r))) =
     (case fst (g r) of
        None \<Rightarrow> Some \<lparr>Response = None, Code = 0,
                      Message = ''Unexpected HTTP Error Response, no error''\<rparr>
      | Some a \<Rightarrow> Some \<lparr>Response = Some (snd (g r)), Code = StatusCode (snd (g r)),
                        Message = Join (map APIErrorReason_Error (Errors a)) ''; ''\<rparr>) \<and>
   snd (NewError g (Some (AResponse r))) = Some (AResponse (snd (g r))) \<and>
   NewError g (Some (AnError (OtherError d None u))) =
     (Some \<lparr>Response = None, Code = 2, Message = d\<rparr>,
      Some (AnError (OtherError d None u))) \<and>
   NewError g (Some (AnError (OtherError d (Some rendering) u))) =
     (Some \<lparr>Response = None, Code = 2, Message = d\<rparr>,
      Some (AnError (OtherError d (Some rendering) u))) \<and>
   NewError g (Some (AString s)) =
     (Some \<lparr>Response = None, Code = 1, Message = s\<rparr>, Some (AString s)) \<and>
   NewError g (Some (AStringer tname str)) =
     (Some \<lparr>Response = None, Code = 3, Message = str\<rparr>, Some (AStringer tname str)) \<and>
   NewError g (Some (AnOther tother)) =
     (Some \<lparr>Response = None, Code = 0,
            Message = ''Unsupported type to linodego.NewError: '' @ tother\<rparr>,
      Some (AnOther tother))"
  by (simp add: ErrorUnsupported_def ErrorFromString_def ErrorFromError_def
      ErrorFromStringer_def APIError_Error_joined split: option.splits prod.splits)

theorem NewError_dispatch_witness:
  "fst (NewError scenario_decoder (Some (AString ''disk full''))) =
     Some \<lparr>Response = None, Code = 1, Message = ''disk full''\<rparr> \<and>
   fst (NewError scenario_decoder
       (Some (AnError (OtherError ''connection refused'' (Some ''dial tcp'') NoUnwrap)))) =
     Some \<lparr>Response = None, Code = 2, Message = ''connection refused''\<rparr> \<and>
   fst (NewError scenario_decoder (Some (AStringer ''net.IP'' ''10.0.0.1''))) =
     Some \<lparr>Response = None, Code = 3, Message = ''10.0.0.1''\<rparr> \<and>
   fst (NewError scenario_decoder (Some (AnOther ''int''))) =
     Some \<lparr>Response = None, Code = 0,
           Message = ''Unsupported type to linodego.NewError: int''\<rparr>"
  using NewError_dispatch
    [where g = scenario_decoder and d = "''connection refused''" and u = NoUnwrap
       and rendering = "''dial tcp''" and s = "''disk full''" and tname = "''net.IP''"
       and str = "''10.0.0.1''" and tother = "''int''"]
  by simp

text \<open>
  C8. \<open>NewError\<close> is idempotent: every non-nil argument gives an \<open>Error\<close>, and that
  \<open>Error\<close>, given to \<open>NewError\<close> again, comes back as it is. So does any pointer to an
  \<open>Error\<close>.
\<close>

theorem NewError_idempotent:
  "(\<exists>e. fst (NewError g (Some x)) = Some e \<and>
        fst (NewError g (Some (AnError (ErrorPtr e)))) = fst (NewError g (Some x))) \<and>
   NewError g (Some (AnError (ErrorPtr c))) = (Some c, Some (AnError (ErrorPtr c)))"
  using NewError_Some [of g x] by auto

theorem NewError_idempotent_witness:
  "\<exists>e. fst (NewError scenario_decoder (Some (AResponse (json_response 400 entity_ids_body)))) =
        Some e \<and>
      Code e = 400 \<and>
      fst (NewError scenario_decoder (Some (AnError (ErrorPtr e)))) =
        fst (NewError scenario_decoder (Some (AResponse (json_response 400 entity_ids_body))))"
  using NewError_idempotent
    [of scenario_decoder "AResponse (json_response 400 entity_ids_body)"]
  by auto

subsection \<open>ErrHasStatus and IsNotFound\<close>

text \<open>
  C9. \<open>ErrHasStatus\<close> is false for a nil error, for an empty list of codes, and for an
  error from which \<^verbatim>\<open>errors.As\<close> reaches no \<open>Error\<close>; otherwise it is true exactly
  when the code of the \<open>Error\<close> reached is one of the codes given. \<open>IsNotFound\<close> is
  \<open>ErrHasStatus\<close> with the one code 404.
\<close>

theorem ErrHasStatus_iff:
  "ErrHasStatus None codes = False \<and>
   ErrHasStatus err [] = False \<and>
   ErrHasStatus (Some x) (c # codes) =
     (case errors_As x of None \<Rightarrow> False | Some e \<Rightarrow> Code e \<in> set (c # codes)) \<and>
   ErrHasStatus err codes =
     (\<exists>x e. err = Some x \<and> codes \<noteq> [] \<and> errors_As x = Some e \<and> Code e \<in> set codes) \<and>
   IsNotFound err = ErrHasStatus err [404]"
  by (auto simp add: ErrHasStatus_def IsNotFound_def StatusNotFound_def code_loop_set
      Error_StatusCode_def split: option.splits)

theorem ErrHasStatus_iff_witness:
  "IsNotFound (Some (Errorf_w ''get instance: ''
      (Some (ErrorPtr \<lparr>Response = None, Code = 404, Message = ''Not found''\<rparr>)))) \<and>
   \<not> ErrHasStatus (Some (Errorf_w ''get instance: ''
      (Some (ErrorPtr \<lparr>Response = None, Code = 404, Message = ''Not found''\<rparr>)))) [500, 503] \<and>
   \<not> IsNotFound (Some (Errorf ''not found''))"
  using ErrHasStatus_iff
    [of "[404]" "Some (Errorf_w ''get instance: ''
      (Some (ErrorPtr \<lparr>Response = None, Code = 404, Message = ''Not found''\<rparr>)))"]
    ErrHasStatus_iff
    [of "[500, 503]" "Some (Errorf_w ''get instance: ''
      (Some (ErrorPtr \<lparr>Response = None, Code = 404, Message = ''Not found''\<rparr>)))"]
    ErrHasStatus_iff [of "[404]" "Some (Errorf ''not found'')"]
  by (simp add: Errorf_w_def Errorf_def)

subsection \<open>One result or the other\<close>

text \<open>
  C10. For every response, transport error and decoder, \<open>coupleAPIErrors\<close> returns
  either an error and no response, or a response and no error: never both, never neither.
\<close>

theorem one_result:
  "(fst (snd (coupleAPIErrors g resp err)) \<noteq> None \<longrightarrow>
      fst (coupleAPIErrors g resp err) = None) \<and>
   (fst (snd (coupleAPIErrors g resp err)) = None \<longrightarrow>
      fst (coupleAPIErrors g resp err) \<noteq> None)"
proof (cases err)
  case (Some e)
  then show ?thesis
    by (simp add: coupleAPIErrors_def NewError_not_None)
next
  case None
  note no_err = this
  show ?thesis
  proof (cases resp)
    case None
    with no_err show ?thesis
      by (simp add: coupleAPIErrors_def NewError_not_None)
  next
    case (Some r)
    with no_err show ?thesis
      by (simp add: coupleAPIErrors_def NewError_not_None NewError_Some ReadAll_def
          split: option.splits prod.splits)
  qed
qed

theorem one_result_witness:
  "fst (coupleAPIErrors scenario_decoder None None) = None \<and>
   fst (snd (coupleAPIErrors scenario_decoder None None)) =
     Some \<lparr>Response = None, Code = 2, Message = ''response is nil''\<rparr> \<and>
   fst (coupleAPIErrors scenario_decoder (Some (json_response 500 ''oops'')) None) = None \<and>
   fst (snd (coupleAPIErrors scenario_decoder (Some (json_response 500 ''oops'')) None)) =
     Some \<lparr>Response = None, Code = 2,
           Message = ''failed to decode response body: %!w(<nil>)''\<rparr>"
  using one_result [of scenario_decoder None None]
    one_result [of scenario_decoder "Some (json_response 500 ''oops'')" None]
  by (simp add: coupleAPIErrors_def Errorf_def Errorf_w_def ErrorFromError_def
      responseContentType_def StatusBadGateway_def)

end
